theory Spec2Isabelle
  imports Complex_Main "HOL-Library.Sublist"
begin

section \<open>Common conventions\<close>

text \<open>
  Python \<open>str\<close> values are modelled as \<open>string\<close>: a list of characters with code points
  below 256 (ASCII and Latin-1). A naive UTC \<open>datetime\<close> is the number of microseconds
  on the time line, a \<open>timedelta\<close> a number of microseconds; a \<open>UUID\<close> is its 128-bit
  integer. The time line is unbounded (the year range of \<open>datetime\<close> and time zones
  are not modelled). Every reading of the clock (\<open>datetime.utcnow()\<close>) inside one call
  is the argument \<open>now\<close> of that call. Exceptions are values: a function that can raise
  returns \<open>error + 'a\<close>.
\<close>

type_synonym datetime = int
type_synonym uuid = nat

datatype error = ValueError string | TypeError string

text \<open>\<open>x or default\<close> on an optional string: \<open>None\<close> and the empty string are falsy.\<close>

definition str_or :: "string option \<Rightarrow> string \<Rightarrow> string" where
  "str_or x d = (case x of None \<Rightarrow> d | Some s \<Rightarrow> if s = [] then d else s)"

text \<open>
  \<open>str.lower()\<close> on code points below 256: the letters A to Z and the Latin-1 capitals
  (0xC0 to 0xDE without the multiplication sign 0xD7) move up by 32, every other
  character stays.
\<close>

definition lower_char :: "char \<Rightarrow> char" where
  "lower_char c = (let n = (of_char c :: nat) in
     if (65 \<le> n \<and> n \<le> 90) \<or> (192 \<le> n \<and> n \<le> 222 \<and> n \<noteq> 215)
     then char_of (n + 32) else c)"

definition lower :: "string \<Rightarrow> string" where
  "lower s = map lower_char s"

text \<open>\<open>p in t\<close> on strings: \<open>p\<close> occurs in \<open>t\<close> as a contiguous block.\<close>

fun str_in :: "string \<Rightarrow> string \<Rightarrow> bool" where
  "str_in p [] = (p = [])"
| "str_in p (c # cs) = (prefix p (c # cs) \<or> str_in p cs)"

section \<open>AI intake service (app/services/ai\_intake.py, app/schemas/intake.py)\<close>

datatype ConversationType = TEXT | AUDIO

datatype SafetyLevel = SAFE | WARNING | BLOCKED

datatype RedFlagSeverity = LOW | MEDIUM | HIGH | CRITICAL

record ConversationTurn =
  turn_id :: int
  timestamp :: datetime
  user_input :: "(string \<times> string) list"
  ai_response_of :: "(string \<times> string) list"
  language_detected :: "string option"
  confidence_of :: "real option"
  safety_check :: "SafetyLevel option"

record RedFlag =
  condition :: string
  severity :: RedFlagSeverity
  detected_at :: datetime
  context_of :: string
  escalation_triggered :: bool
  notification_sent :: bool

record IntakeSession =
  session_id :: uuid
  patient_id :: uuid
  appointment_id :: "uuid option"
  conversation_type :: ConversationType
  conversation_turns :: "ConversationTurn list"
  collected_data :: "(string \<times> string) list"
  red_flags :: "RedFlag list"
  session_status :: string
  started_at :: datetime
  last_activity_at :: datetime
  completed_at :: "datetime option"
  completion_score :: "real option"
  languages_used :: "string list"

record IntakeCompletion =
  ic_session_id :: uuid
  completed :: bool
  ic_completion_score :: real
  total_turns :: nat
  duration_minutes :: int
  chief_complaint :: string
  ic_hpi_collected :: bool
  ic_pmh_collected :: bool
  ic_medications_collected :: bool
  ic_allergies_collected :: bool
  ic_ros_collected :: bool
  red_flags_detected :: "RedFlag list"
  summary :: "(string \<times> string) list"

text \<open>
  The dictionaries that \<open>process_text_input\<close> returns, one constructor per value of
  their \<open>"type"\<close> key. The content of an \<open>ai_response\<close> is optional because the
  provider's message content is.
\<close>

datatype reply =
  error_reply string
| ai_response "string option" string real
| red_flag_alert string RedFlagSeverity bool

text \<open>
  The service object: its \<open>sessions\<close> dictionary, and a log of the texts sent to the
  text-generation provider through \<open>self.client\<close>, one entry per call, in order.
\<close>

record AIIntakeService =
  sessions :: "string \<rightharpoonup> IntakeSession"
  provider_calls :: "string list"

text \<open>
  What one call of the provider does: it raises (or returns no choice), or it returns
  a message whose content may be absent.
\<close>

datatype completion = ProviderError | Completion "string option"

definition new_service :: AIIntakeService where
  "new_service = \<lparr>sessions = Map.empty, provider_calls = []\<rparr>"

text \<open>
  \<open>create_session\<close>. \<open>UUID(session_id)\<close> is the standard library's parser, taken as the
  parameter \<open>parse_uuid\<close>; it raises \<open>ValueError\<close> before anything is stored.
\<close>

definition create_session ::
  "(string \<Rightarrow> uuid option) \<Rightarrow> datetime \<Rightarrow> string \<Rightarrow> uuid \<Rightarrow> AIIntakeService
   \<Rightarrow> error + (IntakeSession \<times> AIIntakeService)" where
  "create_session parse_uuid now sid appt svc =
     (case parse_uuid sid of
        None \<Rightarrow> Inl (ValueError ''badly formed hexadecimal UUID string'')
      | Some u \<Rightarrow>
          (let session = \<lparr>session_id = u, patient_id = 0, appointment_id = Some appt,
                 conversation_type = TEXT, conversation_turns = [], collected_data = [],
                 red_flags = [], session_status = ''active'', started_at = now,
                 last_activity_at = now, completed_at = None, completion_score = None,
                 languages_used = []\<rparr>
           in Inr (session, svc\<lparr>sessions := (sessions svc)(sid \<mapsto> session)\<rparr>)))"

definition dangerous_patterns :: "string list" where
  "dangerous_patterns =
     [''what's my diagnosis'', ''am i going to die'', ''what disease do i have'',
      ''prescribe medication'', ''do i have cancer'', ''what medication'', ''diagnosis'']"

fun check_patterns :: "string list \<Rightarrow> string \<Rightarrow> string" where
  "check_patterns [] text_lower = ''safe''"
| "check_patterns (pattern # rest) text_lower =
     (if str_in pattern text_lower then ''blocked'' else check_patterns rest text_lower)"

definition check_safety :: "string \<Rightarrow> string" where
  "check_safety text = check_patterns dangerous_patterns (lower text)"

text \<open>
  The dictionary of red-flag patterns in insertion order. The severity \<open>"critical"\<close> is
  stored as the enumeration member the \<open>RedFlag\<close> schema turns it into.
\<close>

definition red_flag_patterns :: "(string \<times> RedFlagSeverity \<times> string) list" where
  "red_flag_patterns =
     [(''can't feel my legs'', CRITICAL, ''Possible cauda equina syndrome''),
      (''severe chest pain'', CRITICAL, ''Possible cardiac emergency''),
      (''difficulty breathing'', CRITICAL, ''Respiratory distress''),
      (''severe bleeding'', CRITICAL, ''Hemorrhage'')]"

fun detect_loop ::
  "(string \<times> RedFlagSeverity \<times> string) list \<Rightarrow> datetime \<Rightarrow> string \<Rightarrow> string
   \<Rightarrow> RedFlag list" where
  "detect_loop [] now text text_lower = []"
| "detect_loop ((pattern, sev, cond) # rest) now text text_lower =
     (if str_in pattern text_lower
      then \<lparr>condition = cond, severity = sev, detected_at = now, context_of = text,
             escalation_triggered = True, notification_sent = False\<rparr>
           # detect_loop rest now text text_lower
      else detect_loop rest now text text_lower)"

definition detect_red_flags :: "datetime \<Rightarrow> string \<Rightarrow> RedFlag list" where
  "detect_red_flags now text = detect_loop red_flag_patterns now text (lower text)"

definition fallback_response :: string where
  "fallback_response = ''I understand. Could you tell me more about your symptoms?''"

text \<open>
  \<open>_generate_response\<close>: one call of the provider with the text; any exception gives
  the fallback sentence.
\<close>

definition generate_response ::
  "(string \<Rightarrow> completion) \<Rightarrow> string \<Rightarrow> AIIntakeService
   \<Rightarrow> string option \<times> AIIntakeService" where
  "generate_response provider text svc =
     ((case provider text of
         ProviderError \<Rightarrow> Some fallback_response
       | Completion c \<Rightarrow> c),
      svc\<lparr>provider_calls := provider_calls svc @ [text]\<rparr>)"

definition redirect_content :: string where
  "redirect_content =
     ''I'm here to help gather your medical information. Could you please describe your symptoms or concerns?''"

definition process_text_input ::
  "(string \<Rightarrow> completion) \<Rightarrow> datetime \<Rightarrow> string \<Rightarrow> string \<Rightarrow> string option
   \<Rightarrow> AIIntakeService \<Rightarrow> reply \<times> AIIntakeService" where
  "process_text_input provider now sid text language svc =
     (case sessions svc sid of
        None \<Rightarrow> (error_reply ''Session not found'', svc)
      | Some session \<Rightarrow>
          if check_safety text = ''blocked''
          then (ai_response (Some redirect_content) (str_or language ''en'') 1, svc)
          else
            (case detect_red_flags now text of
               f # fs \<Rightarrow>
                 (red_flag_alert ''Please seek immediate medical attention'' (severity f) True,
                  svc\<lparr>sessions := (sessions svc)
                        (sid \<mapsto> session\<lparr>red_flags := red_flags session @ (f # fs)\<rparr>)\<rparr>)
             | [] \<Rightarrow>
                 (let (response, svc') = generate_response provider text svc
                  in (ai_response response (str_or language ''en'') (95 / 100),
                      svc'\<lparr>sessions := (sessions svc')
                            (sid \<mapsto> session\<lparr>last_activity_at := now\<rparr>)\<rparr>))))"

text \<open>
  \<open>int(seconds / 60)\<close> of a time difference: the quotient truncated towards zero
  (the rounding of the floating-point division is not modelled).
\<close>

definition minutes_between :: "datetime \<Rightarrow> datetime \<Rightarrow> int" where
  "minutes_between t0 t1 =
     (if t0 \<le> t1 then (t1 - t0) div 60000000 else - ((t0 - t1) div 60000000))"

definition complete_session ::
  "datetime \<Rightarrow> string \<Rightarrow> AIIntakeService \<Rightarrow> error + (IntakeCompletion \<times> AIIntakeService)" where
  "complete_session now sid svc =
     (case sessions svc sid of
        None \<Rightarrow> Inl (ValueError ''Session not found'')
      | Some session0 \<Rightarrow>
          (let session = session0\<lparr>completed_at := Some now, session_status := ''completed''\<rparr>
           in Inr (\<lparr>ic_session_id = session_id session, completed = True,
                     ic_completion_score = 8 / 10,
                     total_turns = length (conversation_turns session),
                     duration_minutes = minutes_between (started_at session) now,
                     chief_complaint = ''Patient reported symptoms'',
                     ic_hpi_collected = True, ic_pmh_collected = False,
                     ic_medications_collected = False, ic_allergies_collected = False,
                     ic_ros_collected = False, red_flags_detected = red_flags session,
                     summary = [(''status'', ''completed'')]\<rparr>,
                   svc\<lparr>sessions := (sessions svc)(sid \<mapsto> session)\<rparr>)))"

record SessionStatus =
  st_session_id :: string
  st_status :: string
  st_started_at :: datetime
  st_last_activity_at :: datetime
  st_total_turns :: nat
  st_red_flags_count :: nat

definition get_session_status :: "string \<Rightarrow> AIIntakeService \<Rightarrow> SessionStatus option" where
  "get_session_status sid svc =
     (case sessions svc sid of
        None \<Rightarrow> None
      | Some session \<Rightarrow>
          Some \<lparr>st_session_id = sid, st_status = session_status session,
                st_started_at = started_at session,
                st_last_activity_at = last_activity_at session,
                st_total_turns = length (conversation_turns session),
                st_red_flags_count = length (red_flags session)\<rparr>)"

text \<open>\<open>escalate_red_flag\<close> writes a log line and nothing else.\<close>

definition escalate_red_flag :: "string \<Rightarrow> reply \<Rightarrow> AIIntakeService \<Rightarrow> AIIntakeService" where
  "escalate_red_flag sid red_flag svc = svc"

text \<open>
  The calls a client of the service can make, and a run of them from left to right. A
  call that raises leaves the service as it was: \<open>create_session\<close> and
  \<open>complete_session\<close> raise before they write anything.
\<close>

datatype intake_op =
  CreateSession datetime string uuid
| ProcessText "string \<Rightarrow> completion" datetime string string "string option"
| CompleteSession datetime string
| GetSessionStatus string
| EscalateRedFlag string reply

fun apply_op ::
  "(string \<Rightarrow> uuid option) \<Rightarrow> AIIntakeService \<Rightarrow> intake_op \<Rightarrow> AIIntakeService" where
  "apply_op parse_uuid svc (CreateSession now sid appt) =
     (case create_session parse_uuid now sid appt svc of Inl e \<Rightarrow> svc | Inr (s, svc') \<Rightarrow> svc')"
| "apply_op parse_uuid svc (ProcessText provider now sid text language) =
     snd (process_text_input provider now sid text language svc)"
| "apply_op parse_uuid svc (CompleteSession now sid) =
     (case complete_session now sid svc of Inl e \<Rightarrow> svc | Inr (c, svc') \<Rightarrow> svc')"
| "apply_op parse_uuid svc (GetSessionStatus sid) = svc"
| "apply_op parse_uuid svc (EscalateRedFlag sid red_flag) = escalate_red_flag sid red_flag svc"

definition run_ops ::
  "(string \<Rightarrow> uuid option) \<Rightarrow> AIIntakeService \<Rightarrow> intake_op list \<Rightarrow> AIIntakeService" where
  "run_ops parse_uuid svc ops = foldl (apply_op parse_uuid) svc ops"

text \<open>The invariant of the service: no stored session holds a recorded turn.\<close>

definition no_turns :: "AIIntakeService \<Rightarrow> bool" where
  "no_turns svc \<longleftrightarrow> (\<forall>sid s. sessions svc sid = Some s \<longrightarrow> conversation_turns s = [])"

text \<open>
  A session with five ordinary text turns, as in the repository's completion test.
\<close>

definition test_turn :: intake_op where
  "test_turn = ProcessText (\<lambda>t. Completion (Some ''Tell me more.'')) 60000000
     ''complete_session'' ''Test symptom description'' (Some ''en'')"

definition five_turns :: "intake_op list" where
  "five_turns =
     [CreateSession 0 ''complete_session'' 0,
      test_turn, test_turn, test_turn, test_turn, test_turn]"

text \<open>A service that holds one active session.\<close>

definition example_session :: IntakeSession where
  "example_session =
     \<lparr>session_id = 7, patient_id = 0, appointment_id = Some 2, conversation_type = TEXT,
      conversation_turns = [], collected_data = [], red_flags = [],
      session_status = ''active'', started_at = 5, last_activity_at = 5,
      completed_at = None, completion_score = None, languages_used = []\<rparr>"

definition example_service :: AIIntakeService where
  "example_service = \<lparr>sessions = [''s1'' \<mapsto> example_session], provider_calls = []\<rparr>"

section \<open>Intake completeness (app/domain/intake/value\_objects.py)\<close>

record IntakeCompleteness =
  chief_complaint_collected :: bool
  hpi_collected :: bool
  pmh_collected :: bool
  medications_collected :: bool
  allergies_collected :: bool
  social_history_collected :: bool
  family_history_collected :: bool
  ros_collected :: bool

text \<open>
  \<open>sum(fields) / len(fields)\<close>: a true flag counts 1, a false one 0, and the division is
  the true division of two integers (every value \<open>k / 8\<close> is an exact float).
\<close>

definition score :: "IntakeCompleteness \<Rightarrow> real" where
  "score c =
     (let fields = [chief_complaint_collected c, hpi_collected c, pmh_collected c,
                    medications_collected c, allergies_collected c,
                    social_history_collected c, family_history_collected c,
                    ros_collected c]
      in real_of_int (sum_list (map (\<lambda>b. if b then 1 else 0) fields))
           / real (length fields))"

definition is_complete :: "IntakeCompleteness \<Rightarrow> bool" where
  "is_complete c =
     list_all (\<lambda>b. b) [chief_complaint_collected c, hpi_collected c,
                       medications_collected c, allergies_collected c]"

definition missing_sections :: "IntakeCompleteness \<Rightarrow> string list" where
  "missing_sections c =
     (let sections = [];
          sections = (if \<not> chief_complaint_collected c
                      then sections @ [''Chief Complaint''] else sections);
          sections = (if \<not> hpi_collected c
                      then sections @ [''History of Present Illness''] else sections);
          sections = (if \<not> pmh_collected c
                      then sections @ [''Past Medical History''] else sections);
          sections = (if \<not> medications_collected c
                      then sections @ [''Medications''] else sections);
          sections = (if \<not> allergies_collected c
                      then sections @ [''Allergies''] else sections);
          sections = (if \<not> social_history_collected c
                      then sections @ [''Social History''] else sections);
          sections = (if \<not> family_history_collected c
                      then sections @ [''Family History''] else sections);
          sections = (if \<not> ros_collected c
                      then sections @ [''Review of Systems''] else sections)
      in sections)"

section \<open>Settings (app/core/config.py)\<close>

text \<open>The settings the modelled functions read; \<open>default_settings\<close> holds the defaults.\<close>

record Settings =
  SECRET_KEY :: string
  ALGORITHM :: string
  ACCESS_TOKEN_EXPIRE_MINUTES :: int
  REFRESH_TOKEN_EXPIRE_DAYS :: int
  APPOINTMENT_SLOT_DURATION_MINUTES :: int
  APPOINTMENT_BUFFER_MINUTES :: int

definition default_settings :: "string \<Rightarrow> Settings" where
  "default_settings secret =
     \<lparr>SECRET_KEY = secret, ALGORITHM = ''HS256'', ACCESS_TOKEN_EXPIRE_MINUTES = 15,
      REFRESH_TOKEN_EXPIRE_DAYS = 7, APPOINTMENT_SLOT_DURATION_MINUTES = 30,
      APPOINTMENT_BUFFER_MINUTES = 5\<rparr>"




section \<open>Signed tokens (the python-jose library, modelled symbolically)\<close>

text \<open>
  The values a claims dictionary holds. Python's \<open>None\<close> is \<open>PNone\<close>; looking up a
  key with \<open>dict.get\<close> gives \<open>PNone\<close> when the key is missing.
\<close>

datatype pyval =
  PNone
| PBool bool
| PInt int
| PStr string
| PList "pyval list"
| PDatetime datetime

type_synonym claims = "(string \<times> pyval) list"

definition dict_get :: "claims \<Rightarrow> string \<Rightarrow> pyval" where
  "dict_get d k = (case map_of d k of None \<Rightarrow> PNone | Some v \<Rightarrow> v)"

text \<open>
  The library is not part of the repository. Its tokens are modelled symbolically: a
  token string is either the signature of a claims set under a key and an algorithm, or
  a string that is no such token. \<open>jwt_encode\<close> turns a \<open>datetime\<close> under \<open>exp\<close>,
  \<open>iat\<close> or \<open>nbf\<close> into whole seconds. \<open>jwt_decode\<close> raises \<open>JWTError\<close> or one of
  its two subclasses when the token is malformed, the algorithm is not among the
  accepted ones, the signature does not verify under the key, the expiry is not an
  integer or lies before the current second, or the subject is present and not a
  string; otherwise it returns the claims. Its checks of the other registered claims (\<open>nbf\<close>, \<open>iat\<close>, \<open>aud\<close>,
  \<open>iss\<close>, \<open>jti\<close>), which no token of this repository carries, are left out.
\<close>

datatype token = Signed claims string string | Malformed string

datatype jwt_error = JWTError string | ExpiredSignatureError string | JWTClaimsError string

definition timegm :: "datetime \<Rightarrow> int" where
  "timegm t = t div 1000000"



definition jwt_decode ::
  "datetime \<Rightarrow> token \<Rightarrow> string \<Rightarrow> string list \<Rightarrow> jwt_error + claims" where
  "jwt_decode now tok key algorithms =
     (case tok of
        Malformed s \<Rightarrow> Inl (JWTError ''Not enough segments'')
      | Signed cl k alg \<Rightarrow>
          if alg \<notin> set algorithms
          then Inl (JWTError ''The specified alg value is not allowed'')
          else if k \<noteq> key then Inl (JWTError ''Signature verification failed.'')
          else
            (case map_of cl ''exp'' of
               Some (PInt e) \<Rightarrow>
                 if e < timegm now then Inl (ExpiredSignatureError ''Signature has expired.'')
                 else
                   (case map_of cl ''sub'' of
                      None \<Rightarrow> Inr cl
                    | Some (PStr s) \<Rightarrow> Inr cl
                    | Some v \<Rightarrow> Inl (JWTClaimsError ''Subject must be a string.''))
             | Some v \<Rightarrow>
                 Inl (JWTClaimsError ''Expiration Time claim (exp) must be an integer.'')
             | None \<Rightarrow>
                 (case map_of cl ''sub'' of
                    None \<Rightarrow> Inr cl
                  | Some (PStr s) \<Rightarrow> Inr cl
                  | Some v \<Rightarrow> Inl (JWTClaimsError ''Subject must be a string.''))))"

section \<open>Security primitives (app/core/security.py)\<close>








text \<open>
  \<open>verify_token\<close>: every \<open>JWTError\<close> of the decoder is caught and gives \<open>None\<close>; the
  subject comes back as the payload holds it.
\<close>

definition verify_token :: "Settings \<Rightarrow> datetime \<Rightarrow> token \<Rightarrow> string \<Rightarrow> pyval option" where
  "verify_token S now tok token_type =
     (case jwt_decode now tok (SECRET_KEY S) [ALGORITHM S] of
        Inl e \<Rightarrow> None
      | Inr payload \<Rightarrow>
          if dict_get payload ''type'' \<noteq> PStr token_type then None
          else (let subj = dict_get payload ''sub''
                in if subj = PNone then None else Some subj))"

text \<open>
  \<open>hash_otp\<close> and \<open>verify_otp\<close> (imported by the API as \<open>verify_otp_hash\<close>). The
  hexadecimal SHA-256 digest of the standard library is the parameter \<open>sha256_hex\<close>.
  \<open>hmac.compare_digest\<close> on two strings raises \<open>TypeError\<close> unless both are ASCII.
\<close>

definition hash_otp :: "(string \<Rightarrow> string) \<Rightarrow> Settings \<Rightarrow> string \<Rightarrow> string \<Rightarrow> string" where
  "hash_otp sha256_hex S otp phone =
     (let key = SECRET_KEY S @ phone in sha256_hex (otp @ key))"

definition is_ascii :: "string \<Rightarrow> bool" where
  "is_ascii s = list_all (\<lambda>c. (of_char c :: nat) < 128) s"

definition compare_digest :: "string \<Rightarrow> string \<Rightarrow> error + bool" where
  "compare_digest a b =
     (if is_ascii a \<and> is_ascii b then Inr (a = b)
      else Inl (TypeError ''comparing strings with non-ASCII characters is not supported''))"

definition verify_otp_hash ::
  "(string \<Rightarrow> string) \<Rightarrow> Settings \<Rightarrow> string \<Rightarrow> string \<Rightarrow> string \<Rightarrow> error + bool" where
  "verify_otp_hash sha256_hex S otp phone hashed_otp =
     compare_digest (hash_otp sha256_hex S otp phone) hashed_otp"

section \<open>OTP verification endpoint (app/api/auth.py)\<close>



record Token =
  access_token :: token
  refresh_token :: token
  token_type :: string






section \<open>Patient aggregate (app/domain/patient/aggregate.py, entities.py)\<close>

text \<open>
  The value objects (phone number, name, date of birth, gender, e-mail address, ABHA
  number, address) are validated when they are built and are opaque here: strings.
\<close>

record Consent =
  consent_uid :: uuid
  consent_patient_id :: uuid
  consent_type :: string
  purpose :: string
  granted_at :: datetime
  expires_at :: "datetime option"
  revoked_at :: "datetime option"

text \<open>
  The property \<open>Consent.is_active\<close>, read at the time \<open>now\<close>, and the methods
  \<open>Consent.revoke\<close> and \<open>Consent.extend\<close>.
\<close>

definition is_active :: "datetime \<Rightarrow> Consent \<Rightarrow> bool" where
  "is_active now c =
     (if revoked_at c \<noteq> None then False
      else if (case expires_at c of None \<Rightarrow> False | Some e \<Rightarrow> now > e) then False
      else True)"

definition consent_revoke :: "datetime \<Rightarrow> Consent \<Rightarrow> error + Consent" where
  "consent_revoke now c =
     (if revoked_at c \<noteq> None then Inl (ValueError ''Consent already revoked'')
      else Inr (c\<lparr>revoked_at := Some now\<rparr>))"

definition consent_extend :: "datetime \<Rightarrow> datetime \<Rightarrow> Consent \<Rightarrow> error + Consent" where
  "consent_extend now new_expiry c =
     (if \<not> is_active now c then Inl (ValueError ''Cannot extend inactive consent'')
      else if new_expiry \<le> now then Inl (ValueError ''New expiry must be in the future'')
      else Inr (c\<lparr>expires_at := Some new_expiry\<rparr>))"

record EmergencyContact =
  contact_uid :: uuid
  contact_name :: string
  contact_phone :: string
  relationship :: string
  is_primary :: bool

record MedicalHistory =
  chronic_conditions :: "string list"
  allergies :: "string list"
  current_medications :: "string list"
  past_surgeries :: "string list"
  family_history :: "string list"

text \<open>A domain event with its aggregate id, its time, and the fields of its class.\<close>

datatype DomainEvent =
  PatientRegisteredEvent uuid datetime string string
| PatientVerifiedEvent uuid datetime string
| ConsentGrantedEvent uuid datetime string string
| ConsentRevokedEvent uuid datetime string

record Patient =
  uid :: uuid
  events :: "DomainEvent list"
  version :: int
  phone :: string
  name :: string
  date_of_birth :: string
  gender :: string
  email :: "string option"
  abha_number :: "string option"
  address :: "string option"
  language_preference :: string
  consents :: "Consent list"
  emergency_contacts :: "EmergencyContact list"
  medical_history :: MedicalHistory
  is_verified :: bool
  is_active_flag :: bool
  registered_at :: datetime
  verified_at :: "datetime option"
  last_activity_at_of :: datetime

text \<open>The constructor \<open>Patient(...)\<close> and the factory \<open>Patient.register\<close>.\<close>

definition Patient_init ::
  "datetime \<Rightarrow> uuid \<Rightarrow> string \<Rightarrow> string \<Rightarrow> string \<Rightarrow> string \<Rightarrow> string option
   \<Rightarrow> string option \<Rightarrow> string option \<Rightarrow> string \<Rightarrow> int \<Rightarrow> Patient" where
  "Patient_init now i ph nm dob g em abha addr lang v =
     \<lparr>uid = i, events = [], version = v, phone = ph, name = nm, date_of_birth = dob,
      gender = g, email = em, abha_number = abha, address = addr,
      language_preference = lang, consents = [], emergency_contacts = [],
      medical_history = \<lparr>chronic_conditions = [], allergies = [], current_medications = [],
                          past_surgeries = [], family_history = []\<rparr>,
      is_verified = False, is_active_flag = True, registered_at = now, verified_at = None,
      last_activity_at_of = now\<rparr>"

definition register ::
  "datetime \<Rightarrow> uuid \<Rightarrow> string \<Rightarrow> string \<Rightarrow> string \<Rightarrow> string \<Rightarrow> string option
   \<Rightarrow> Patient" where
  "register now i ph nm dob g em =
     (let patient = Patient_init now i ph nm dob g em None None ''en'' 0
      in patient\<lparr>events := events patient @ [PatientRegisteredEvent i now ph nm]\<rparr>)"

definition increment_version :: "Patient \<Rightarrow> Patient" where
  "increment_version p = p\<lparr>version := version p + 1\<rparr>"

definition add_domain_event :: "DomainEvent \<Rightarrow> Patient \<Rightarrow> Patient" where
  "add_domain_event e p = p\<lparr>events := events p @ [e]\<rparr>"

definition clear_domain_events :: "Patient \<Rightarrow> DomainEvent list \<times> Patient" where
  "clear_domain_events p = (events p, p\<lparr>events := []\<rparr>)"

definition verify :: "datetime \<Rightarrow> string \<Rightarrow> Patient \<Rightarrow> error + Patient" where
  "verify now method p =
     (if is_verified p then Inl (ValueError ''Patient already verified'')
      else Inr (add_domain_event (PatientVerifiedEvent (uid p) now method)
                  (increment_version (p\<lparr>is_verified := True, verified_at := Some now\<rparr>))))"

text \<open>
  The loop of \<open>has_active_consent\<close>, which \<open>grant_consent\<close> runs as well before it
  raises.
\<close>

fun has_active :: "datetime \<Rightarrow> string \<Rightarrow> Consent list \<Rightarrow> bool" where
  "has_active now ty [] = False"
| "has_active now ty (c # cs) =
     (if consent_type c = ty \<and> is_active now c then True else has_active now ty cs)"

definition has_active_consent :: "datetime \<Rightarrow> string \<Rightarrow> Patient \<Rightarrow> bool" where
  "has_active_consent now ty p = has_active now ty (consents p)"

definition get_active_consents :: "datetime \<Rightarrow> Patient \<Rightarrow> Consent list" where
  "get_active_consents now p = filter (is_active now) (consents p)"

definition grant_consent ::
  "datetime \<Rightarrow> uuid \<Rightarrow> string \<Rightarrow> string \<Rightarrow> datetime option \<Rightarrow> Patient
   \<Rightarrow> error + (Consent \<times> Patient)" where
  "grant_consent now cid ty purp expires p =
     (if has_active now ty (consents p)
      then Inl (ValueError (''Active consent for '' @ ty @ '' already exists''))
      else
        (let consent = \<lparr>consent_uid = cid, consent_patient_id = uid p, consent_type = ty,
                         purpose = purp, granted_at = now, expires_at = expires,
                         revoked_at = None\<rparr>
         in Inr (consent,
                 add_domain_event (ConsentGrantedEvent (uid p) now ty purp)
                   (increment_version (p\<lparr>consents := consents p @ [consent]\<rparr>)))))"

text \<open>
  The loop of \<open>revoke_consent\<close>: the first consent of the type that is active is
  revoked and the loop stops; \<open>None\<close> when no consent was found.
\<close>

fun revoke_first :: "datetime \<Rightarrow> string \<Rightarrow> Consent list \<Rightarrow> error + Consent list option" where
  "revoke_first now ty [] = Inr None"
| "revoke_first now ty (c # cs) =
     (if consent_type c = ty \<and> is_active now c
      then (case consent_revoke now c of Inl e \<Rightarrow> Inl e | Inr c' \<Rightarrow> Inr (Some (c' # cs)))
      else (case revoke_first now ty cs of
              Inl e \<Rightarrow> Inl e
            | Inr None \<Rightarrow> Inr None
            | Inr (Some cs') \<Rightarrow> Inr (Some (c # cs'))))"

definition revoke_consent :: "datetime \<Rightarrow> string \<Rightarrow> Patient \<Rightarrow> error + Patient" where
  "revoke_consent now ty p =
     (case revoke_first now ty (consents p) of
        Inl e \<Rightarrow> Inl e
      | Inr None \<Rightarrow> Inl (ValueError (''No active consent found for '' @ ty))
      | Inr (Some cs') \<Rightarrow>
          Inr (add_domain_event (ConsentRevokedEvent (uid p) now ty)
                 (increment_version (p\<lparr>consents := cs'\<rparr>))))"

definition add_emergency_contact ::
  "uuid \<Rightarrow> string \<Rightarrow> string \<Rightarrow> string \<Rightarrow> bool \<Rightarrow> Patient \<Rightarrow> EmergencyContact \<times> Patient" where
  "add_emergency_contact cid nm ph rel primary p =
     (let existing = (if primary
                      then map (\<lambda>c. if is_primary c then c\<lparr>is_primary := False\<rparr> else c)
                             (emergency_contacts p)
                      else emergency_contacts p);
          contact = \<lparr>contact_uid = cid, contact_name = nm, contact_phone = ph,
                     relationship = rel, is_primary = primary\<rparr>
      in (contact, increment_version (p\<lparr>emergency_contacts := existing @ [contact]\<rparr>)))"

definition update_contact_info ::
  "datetime \<Rightarrow> string option \<Rightarrow> string option \<Rightarrow> string option \<Rightarrow> Patient \<Rightarrow> Patient" where
  "update_contact_info now ph em addr p =
     (let p1 = (case ph of Some x \<Rightarrow> p\<lparr>phone := x\<rparr> | None \<Rightarrow> p);
          p2 = (case em of Some x \<Rightarrow> p1\<lparr>email := Some x\<rparr> | None \<Rightarrow> p1);
          p3 = (case addr of Some x \<Rightarrow> p2\<lparr>address := Some x\<rparr> | None \<Rightarrow> p2)
      in increment_version (p3\<lparr>last_activity_at_of := now\<rparr>))"

definition link_abha :: "string \<Rightarrow> Patient \<Rightarrow> error + Patient" where
  "link_abha abha p =
     (if abha_number p \<noteq> None then Inl (ValueError ''ABHA number already linked'')
      else Inr (increment_version (p\<lparr>abha_number := Some abha\<rparr>)))"

definition deactivate :: "Patient \<Rightarrow> error + Patient" where
  "deactivate p =
     (if \<not> is_active_flag p then Inl (ValueError ''Patient already deactivated'')
      else Inr (increment_version (p\<lparr>is_active_flag := False\<rparr>)))"

definition reactivate :: "datetime \<Rightarrow> Patient \<Rightarrow> error + Patient" where
  "reactivate now p =
     (if is_active_flag p then Inl (ValueError ''Patient already active'')
      else Inr (increment_version (p\<lparr>is_active_flag := True, last_activity_at_of := now\<rparr>)))"

text \<open>
  The calls on a patient aggregate, each with the time at which it is made. The last two
  are the methods of a \<open>Consent\<close> object that \<open>grant_consent\<close> has handed out,
  addressed by its position in the list. A call that raises leaves the aggregate as it
  was.
\<close>

datatype patient_op =
  Verify datetime string
| GrantConsent datetime uuid string string "datetime option"
| RevokeConsent datetime string
| AddEmergencyContact datetime uuid string string string bool
| UpdateContactInfo datetime "string option" "string option" "string option"
| LinkAbha datetime string
| Deactivate datetime
| Reactivate datetime
| ClearDomainEvents datetime
| ConsentRevoke datetime nat
| ConsentExtend datetime nat datetime

fun op_time :: "patient_op \<Rightarrow> datetime" where
  "op_time (Verify t m) = t"
| "op_time (GrantConsent t cid ty purp ex) = t"
| "op_time (RevokeConsent t ty) = t"
| "op_time (AddEmergencyContact t cid nm ph rel pr) = t"
| "op_time (UpdateContactInfo t ph em addr) = t"
| "op_time (LinkAbha t abha) = t"
| "op_time (Deactivate t) = t"
| "op_time (Reactivate t) = t"
| "op_time (ClearDomainEvents t) = t"
| "op_time (ConsentRevoke t i) = t"
| "op_time (ConsentExtend t i ex) = t"

fun apply_patient_op :: "Patient \<Rightarrow> patient_op \<Rightarrow> Patient" where
  "apply_patient_op p (Verify t m) = (case verify t m p of Inl e \<Rightarrow> p | Inr p' \<Rightarrow> p')"
| "apply_patient_op p (GrantConsent t cid ty purp ex) =
     (case grant_consent t cid ty purp ex p of Inl e \<Rightarrow> p | Inr (c, p') \<Rightarrow> p')"
| "apply_patient_op p (RevokeConsent t ty) =
     (case revoke_consent t ty p of Inl e \<Rightarrow> p | Inr p' \<Rightarrow> p')"
| "apply_patient_op p (AddEmergencyContact t cid nm ph rel pr) =
     snd (add_emergency_contact cid nm ph rel pr p)"
| "apply_patient_op p (UpdateContactInfo t ph em addr) = update_contact_info t ph em addr p"
| "apply_patient_op p (LinkAbha t abha) = (case link_abha abha p of Inl e \<Rightarrow> p | Inr p' \<Rightarrow> p')"
| "apply_patient_op p (Deactivate t) = (case deactivate p of Inl e \<Rightarrow> p | Inr p' \<Rightarrow> p')"
| "apply_patient_op p (Reactivate t) = (case reactivate t p of Inl e \<Rightarrow> p | Inr p' \<Rightarrow> p')"
| "apply_patient_op p (ClearDomainEvents t) = snd (clear_domain_events p)"
| "apply_patient_op p (ConsentRevoke t i) =
     (if i < length (consents p)
      then (case consent_revoke t (consents p ! i) of
              Inl e \<Rightarrow> p
            | Inr c' \<Rightarrow> p\<lparr>consents := (consents p)[i := c']\<rparr>)
      else p)"
| "apply_patient_op p (ConsentExtend t i ex) =
     (if i < length (consents p)
      then (case consent_extend t ex (consents p ! i) of
              Inl e \<Rightarrow> p
            | Inr c' \<Rightarrow> p\<lparr>consents := (consents p)[i := c']\<rparr>)
      else p)"

definition run_patient_ops :: "Patient \<Rightarrow> patient_op list \<Rightarrow> Patient" where
  "run_patient_ops p ops = foldl apply_patient_op p ops"

text \<open>The number of active consents of a type at a time.\<close>

definition active_count :: "datetime \<Rightarrow> string \<Rightarrow> Consent list \<Rightarrow> nat" where
  "active_count now ty cs = length (filter (\<lambda>c. consent_type c = ty \<and> is_active now c) cs)"

text \<open>The invariant: at most one active consent of each type.\<close>

definition one_active :: "datetime \<Rightarrow> Patient \<Rightarrow> bool" where
  "one_active t p \<longleftrightarrow> (\<forall>ty. active_count t ty (consents p) \<le> 1)"

text \<open>A registered patient and a first grant of the intake consent.\<close>

definition example_patient :: Patient where
  "example_patient = register 0 7 ''9876543210'' ''Asha Rao'' ''1990-01-01'' ''female'' None"

definition example_grant :: patient_op where
  "example_grant = GrantConsent 10 5 ''ai_intake'' ''AI-assisted medical intake'' None"

section \<open>Available appointment slots (app/api/appointments.py)\<close>


text \<open>The query parameter \<open>appointment_type\<close> admits the two values of its pattern.\<close>

datatype AppointmentType = physical | virtual








section \<open>Properties of the AI intake service\<close>

lemma str_in_iff: "str_in p t \<longleftrightarrow> (\<exists>a b. t = a @ p @ b)"
proof (induction t)
  case Nil
  then show ?case by auto
next
  case (Cons c cs)
  show ?case
  proof
    assume "str_in p (c # cs)"
    then consider "prefix p (c # cs)" | "str_in p cs" by auto
    then show "\<exists>a b. c # cs = a @ p @ b"
    proof cases
      case 1
      then obtain b where "c # cs = p @ b" by (auto simp: prefix_def)
      then have "c # cs = [] @ p @ b" by simp
      then show ?thesis by blast
    next
      case 2
      with Cons.IH obtain a b where "cs = a @ p @ b" by blast
      then have "c # cs = (c # a) @ p @ b" by simp
      then show ?thesis by blast
    qed
  next
    assume "\<exists>a b. c # cs = a @ p @ b"
    then obtain a b where ab: "c # cs = a @ p @ b" by blast
    show "str_in p (c # cs)"
    proof (cases a)
      case Nil
      with ab have "prefix p (c # cs)" by (simp add: prefix_def)
      then show ?thesis by simp
    next
      case (Cons x a')
      with ab have "cs = a' @ p @ b" by simp
      with Cons.IH have "str_in p cs" by blast
      then show ?thesis by simp
    qed
  qed
qed

lemma check_patterns_blocked:
  "check_patterns ps t = ''blocked'' \<longleftrightarrow> (\<exists>p \<in> set ps. str_in p t)"
  by (induction ps) auto

text \<open>
  Claim C1. On a turn of a known session whose lowercased text contains a phrase of the
  denylist, \<open>process_text_input\<close> returns the fixed redirect reply with confidence 1 and
  the requested language (or "en"), and leaves the service as it was: no red flag is
  added to any session, and the provider is not called. This holds whatever the
  red-flag detector would have found in the text. On every turn of a known session the
  provider is called exactly when the text is neither blocked nor flagged, and then
  once: the blocked check comes before the red-flag detection, which comes before the
  call of the provider.
\<close>

theorem blocked_turn_returns_redirect:
  assumes "sessions svc sid = Some session"
  shows "(p \<in> set [''what's my diagnosis'', ''am i going to die'', ''what disease do i have'',
                   ''prescribe medication'', ''do i have cancer'', ''what medication'',
                   ''diagnosis'']
          \<and> str_in p (lower text)
          \<longrightarrow> process_text_input provider now sid text language svc =
                (ai_response
                   (Some ''I'm here to help gather your medical information. Could you please describe your symptoms or concerns?'')
                   (case language of None \<Rightarrow> ''en'' | Some l \<Rightarrow> if l = [] then ''en'' else l)
                   1,
                 svc))
         \<and> provider_calls (snd (process_text_input provider now sid text language svc)) =
             (if (\<exists>p \<in> set [''what's my diagnosis'', ''am i going to die'',
                              ''what disease do i have'', ''prescribe medication'',
                              ''do i have cancer'', ''what medication'', ''diagnosis''].
                    str_in p (lower text))
                 \<or> detect_red_flags now text \<noteq> []
              then provider_calls svc
              else provider_calls svc @ [text])"
proof -
  have blocked: "check_safety text = ''blocked'' \<longleftrightarrow>
      (\<exists>p \<in> set [''what's my diagnosis'', ''am i going to die'',
                   ''what disease do i have'', ''prescribe medication'',
                   ''do i have cancer'', ''what medication'', ''diagnosis''].
         str_in p (lower text))"
    unfolding check_safety_def check_patterns_blocked dangerous_patterns_def ..
  have first: "p \<in> set [''what's my diagnosis'', ''am i going to die'', ''what disease do i have'',
                   ''prescribe medication'', ''do i have cancer'', ''what medication'',
                   ''diagnosis'']
          \<and> str_in p (lower text)
          \<longrightarrow> process_text_input provider now sid text language svc =
                (ai_response
                   (Some ''I'm here to help gather your medical information. Could you please describe your symptoms or concerns?'')
                   (case language of None \<Rightarrow> ''en'' | Some l \<Rightarrow> if l = [] then ''en'' else l)
                   1,
                 svc)"
  proof
    assume "p \<in> set [''what's my diagnosis'', ''am i going to die'', ''what disease do i have'',
                   ''prescribe medication'', ''do i have cancer'', ''what medication'',
                   ''diagnosis'']
          \<and> str_in p (lower text)"
    then have "check_safety text = ''blocked''"
      unfolding blocked by blast
    with assms show "process_text_input provider now sid text language svc =
                (ai_response
                   (Some ''I'm here to help gather your medical information. Could you please describe your symptoms or concerns?'')
                   (case language of None \<Rightarrow> ''en'' | Some l \<Rightarrow> if l = [] then ''en'' else l)
                   1,
                 svc)"
      by (simp add: process_text_input_def redirect_content_def str_or_def)
  qed
  have calls: "provider_calls (snd (process_text_input provider now sid text language svc)) =
      (if check_safety text = ''blocked'' \<or> detect_red_flags now text \<noteq> []
       then provider_calls svc else provider_calls svc @ [text])"
    using assms
    by (simp add: process_text_input_def generate_response_def split: list.splits)
  from first calls show ?thesis
    unfolding blocked by blast
qed

theorem blocked_turn_returns_redirect_witness:
  "sessions example_service ''s1'' = Some example_session
   \<and> str_in ''diagnosis'' (lower ''What's my DIAGNOSIS? I have severe chest pain'')
   \<and> detect_red_flags 9 ''What's my DIAGNOSIS? I have severe chest pain'' \<noteq> []
   \<and> process_text_input (\<lambda>t. ProviderError) 9 ''s1''
        ''What's my DIAGNOSIS? I have severe chest pain'' (Some ''hi'') example_service
      = (ai_response
           (Some ''I'm here to help gather your medical information. Could you please describe your symptoms or concerns?'')
           ''hi'' 1,
         example_service)
   \<and> provider_calls (snd (process_text_input (\<lambda>t. ProviderError) 9 ''s1''
        ''What's my DIAGNOSIS? I have severe chest pain'' (Some ''hi'') example_service)) = []
   \<and> provider_calls (snd (process_text_input (\<lambda>t. ProviderError) 9 ''s1''
        ''My knee hurts when I walk'' None example_service)) = [''My knee hurts when I walk'']"
proof -
  have h1: "sessions example_service ''s1'' = Some example_session"
    by (simp add: example_service_def)
  have h3: "str_in ''diagnosis'' (lower ''What's my DIAGNOSIS? I have severe chest pain'')"
    by code_simp
  have h4: "detect_red_flags 9 ''What's my DIAGNOSIS? I have severe chest pain'' \<noteq> []"
    by code_simp
  have safe: "\<not> (\<exists>p \<in> set [''what's my diagnosis'', ''am i going to die'',
                   ''what disease do i have'', ''prescribe medication'',
                   ''do i have cancer'', ''what medication'', ''diagnosis''].
         str_in p (lower ''My knee hurts when I walk''))"
    by code_simp
  have noflag: "detect_red_flags 9 ''My knee hurts when I walk'' = []"
    by code_simp
  note t1 = blocked_turn_returns_redirect [OF h1, where p = "''diagnosis''"
      and ?text = "''What's my DIAGNOSIS? I have severe chest pain''" and now = 9
      and provider = "\<lambda>t. ProviderError" and language = "Some ''hi''"]
  note t2 = blocked_turn_returns_redirect [OF h1, where p = "''diagnosis''"
      and ?text = "''My knee hurts when I walk''" and now = 9
      and provider = "\<lambda>t. ProviderError" and language = None]
  from t1 h3 have r: "process_text_input (\<lambda>t. ProviderError) 9 ''s1''
        ''What's my DIAGNOSIS? I have severe chest pain'' (Some ''hi'') example_service
      = (ai_response
           (Some ''I'm here to help gather your medical information. Could you please describe your symptoms or concerns?'')
           ''hi'' 1,
         example_service)"
    by simp
  from t2 safe noflag have c: "provider_calls (snd (process_text_input (\<lambda>t. ProviderError) 9 ''s1''
        ''My knee hurts when I walk'' None example_service)) = [''My knee hurts when I walk'']"
    by (simp add: example_service_def)
  from h1 h3 h4 r c show ?thesis
    by (simp add: example_service_def)
qed

lemma detect_loop_eq:
  "detect_loop tbl now text tlow =
     map (\<lambda>(p, s, c). \<lparr>condition = c, severity = s, detected_at = now, context_of = text,
             escalation_triggered = True, notification_sent = False\<rparr>)
       (filter (\<lambda>(p, s, c). str_in p tlow) tbl)"
  by (induction tbl now "text" tlow rule: detect_loop.induct) auto

text \<open>
  Claim C2. The red-flag detector returns one flag for each entry of the fixed table
  (four patterns, all critical) whose pattern occurs in the lowercased text, in the
  table's order. On a turn of a known session that is not blocked and has at least one
  match, all matches are appended to the session's red-flag list, the reply is the
  \<open>red_flag_alert\<close> with the fixed message, the severity of the first match (which is
  critical) and escalation set, and the provider is not called. A text that matches no
  pattern ("my shoulder is sore after exercise") yields the empty list; "severe chest
  pain" yields exactly one critical flag.
\<close>

theorem red_flag_turn_returns_alert:
  "detect_red_flags now text =
     map (\<lambda>(p, s, c). \<lparr>condition = c, severity = s, detected_at = now, context_of = text,
             escalation_triggered = True, notification_sent = False\<rparr>)
       (filter (\<lambda>(p, s, c). str_in p (lower text))
          [(''can't feel my legs'', CRITICAL, ''Possible cauda equina syndrome''),
           (''severe chest pain'', CRITICAL, ''Possible cardiac emergency''),
           (''difficulty breathing'', CRITICAL, ''Respiratory distress''),
           (''severe bleeding'', CRITICAL, ''Hemorrhage'')])
   \<and> (sessions svc sid = Some session \<and> check_safety text \<noteq> ''blocked''
        \<and> detect_red_flags now text = f # fs \<longrightarrow>
      process_text_input provider now sid text language svc =
        (red_flag_alert ''Please seek immediate medical attention'' (severity f) True,
         svc\<lparr>sessions := (sessions svc)
               (sid \<mapsto> session\<lparr>red_flags := red_flags session @ detect_red_flags now text\<rparr>)\<rparr>)
      \<and> severity f = CRITICAL
      \<and> provider_calls (snd (process_text_input provider now sid text language svc))
          = provider_calls svc)
   \<and> detect_red_flags now ''my shoulder is sore after exercise'' = []
   \<and> map severity (detect_red_flags now ''severe chest pain'') = [CRITICAL]"
proof -
  have A: "detect_red_flags now text =
     map (\<lambda>(p, s, c). \<lparr>condition = c, severity = s, detected_at = now, context_of = text,
             escalation_triggered = True, notification_sent = False\<rparr>)
       (filter (\<lambda>(p, s, c). str_in p (lower text))
          [(''can't feel my legs'', CRITICAL, ''Possible cauda equina syndrome''),
           (''severe chest pain'', CRITICAL, ''Possible cardiac emergency''),
           (''difficulty breathing'', CRITICAL, ''Respiratory distress''),
           (''severe bleeding'', CRITICAL, ''Hemorrhage'')])"
    by (simp only: detect_red_flags_def detect_loop_eq red_flag_patterns_def)
  have sev: "\<forall>f \<in> set (detect_red_flags now text). severity f = CRITICAL"
    unfolding A by auto
  have B: "sessions svc sid = Some session \<and> check_safety text \<noteq> ''blocked''
        \<and> detect_red_flags now text = f # fs \<longrightarrow>
      process_text_input provider now sid text language svc =
        (red_flag_alert ''Please seek immediate medical attention'' (severity f) True,
         svc\<lparr>sessions := (sessions svc)
               (sid \<mapsto> session\<lparr>red_flags := red_flags session @ detect_red_flags now text\<rparr>)\<rparr>)
      \<and> severity f = CRITICAL
      \<and> provider_calls (snd (process_text_input provider now sid text language svc))
          = provider_calls svc"
    using sev by (auto simp: process_text_input_def)
  have C: "detect_red_flags now ''my shoulder is sore after exercise'' = []"
    by code_simp
  have D: "map severity (detect_red_flags now ''severe chest pain'') = [CRITICAL]"
    by code_simp
  from A B C D show ?thesis by blast
qed


theorem red_flag_turn_returns_alert_witness:
  "sessions example_service ''s1'' = Some example_session
   \<and> check_safety ''Severe chest pain and difficulty breathing'' \<noteq> ''blocked''
   \<and> detect_red_flags 9 ''Severe chest pain and difficulty breathing'' =
        [\<lparr>condition = ''Possible cardiac emergency'', severity = CRITICAL, detected_at = 9,
          context_of = ''Severe chest pain and difficulty breathing'',
          escalation_triggered = True, notification_sent = False\<rparr>,
         \<lparr>condition = ''Respiratory distress'', severity = CRITICAL, detected_at = 9,
          context_of = ''Severe chest pain and difficulty breathing'',
          escalation_triggered = True, notification_sent = False\<rparr>]
   \<and> process_text_input (\<lambda>t. Completion (Some ''ok'')) 9 ''s1''
          ''Severe chest pain and difficulty breathing'' (Some ''en'') example_service
      = (red_flag_alert ''Please seek immediate medical attention'' CRITICAL True,
         example_service\<lparr>sessions := (sessions example_service)
           (''s1'' \<mapsto> example_session\<lparr>red_flags :=
              [\<lparr>condition = ''Possible cardiac emergency'', severity = CRITICAL,
                detected_at = 9, context_of = ''Severe chest pain and difficulty breathing'',
                escalation_triggered = True, notification_sent = False\<rparr>,
               \<lparr>condition = ''Respiratory distress'', severity = CRITICAL, detected_at = 9,
                context_of = ''Severe chest pain and difficulty breathing'',
                escalation_triggered = True, notification_sent = False\<rparr>]\<rparr>)\<rparr>)"
proof -
  have h1: "sessions example_service ''s1'' = Some example_session"
    by (simp add: example_service_def)
  have h2: "check_safety ''Severe chest pain and difficulty breathing'' \<noteq> ''blocked''"
    by code_simp
  have h3: "detect_red_flags 9 ''Severe chest pain and difficulty breathing'' =
        [\<lparr>condition = ''Possible cardiac emergency'', severity = CRITICAL, detected_at = 9,
          context_of = ''Severe chest pain and difficulty breathing'',
          escalation_triggered = True, notification_sent = False\<rparr>,
         \<lparr>condition = ''Respiratory distress'', severity = CRITICAL, detected_at = 9,
          context_of = ''Severe chest pain and difficulty breathing'',
          escalation_triggered = True, notification_sent = False\<rparr>]"
    by code_simp
  have rf: "red_flags example_session = []"
    by (simp add: example_session_def)
  note t = red_flag_turn_returns_alert [where now = 9
      and ?text = "''Severe chest pain and difficulty breathing''" and svc = example_service
      and sid = "''s1''" and session = example_session
      and provider = "\<lambda>t. Completion (Some ''ok'')" and language = "Some ''en''"
      and f = "\<lparr>condition = ''Possible cardiac emergency'', severity = CRITICAL,
          detected_at = 9, context_of = ''Severe chest pain and difficulty breathing'',
          escalation_triggered = True, notification_sent = False\<rparr>"
      and fs = "[\<lparr>condition = ''Respiratory distress'', severity = CRITICAL, detected_at = 9,
          context_of = ''Severe chest pain and difficulty breathing'',
          escalation_triggered = True, notification_sent = False\<rparr>]"]
  from t h1 h2 h3 rf have "process_text_input (\<lambda>t. Completion (Some ''ok'')) 9 ''s1''
          ''Severe chest pain and difficulty breathing'' (Some ''en'') example_service
      = (red_flag_alert ''Please seek immediate medical attention'' CRITICAL True,
         example_service\<lparr>sessions := (sessions example_service)
           (''s1'' \<mapsto> example_session\<lparr>red_flags :=
              [\<lparr>condition = ''Possible cardiac emergency'', severity = CRITICAL,
                detected_at = 9, context_of = ''Severe chest pain and difficulty breathing'',
                escalation_triggered = True, notification_sent = False\<rparr>,
               \<lparr>condition = ''Respiratory distress'', severity = CRITICAL, detected_at = 9,
                context_of = ''Severe chest pain and difficulty breathing'',
                escalation_triggered = True, notification_sent = False\<rparr>]\<rparr>)\<rparr>)"
    by simp
  with h1 h2 h3 show ?thesis by blast
qed

subsection \<open>No operation records a conversation turn\<close>

lemma no_turns_new: "no_turns new_service"
  by (simp add: no_turns_def new_service_def)

lemma no_turns_create:
  "no_turns svc \<Longrightarrow> create_session pu now sid appt svc = Inr (s, svc') \<Longrightarrow> no_turns svc'"
  by (auto simp: no_turns_def create_session_def Let_def split: option.splits if_splits)

lemma no_turns_process:
  "no_turns svc \<Longrightarrow> no_turns (snd (process_text_input provider now sid t language svc))"
  by (auto simp: no_turns_def process_text_input_def generate_response_def
      split: option.splits list.splits if_splits)

lemma no_turns_complete:
  "no_turns svc \<Longrightarrow> complete_session now sid svc = Inr (c, svc') \<Longrightarrow> no_turns svc'"
  by (auto simp: no_turns_def complete_session_def Let_def split: option.splits if_splits)

lemma no_turns_apply_op: "no_turns svc \<Longrightarrow> no_turns (apply_op pu svc x)"
proof (cases x)
  case (CreateSession now sid appt)
  assume "no_turns svc"
  then show ?thesis using CreateSession
    by (auto split: sum.splits dest: no_turns_create)
next
  case (ProcessText provider now sid t language)
  assume "no_turns svc"
  then show ?thesis using ProcessText by (simp add: no_turns_process)
next
  case (CompleteSession now sid)
  assume "no_turns svc"
  then show ?thesis using CompleteSession
    by (auto split: sum.splits dest: no_turns_complete)
next
  case (GetSessionStatus sid)
  assume "no_turns svc"
  then show ?thesis using GetSessionStatus by simp
next
  case (EscalateRedFlag sid rf)
  assume "no_turns svc"
  then show ?thesis using EscalateRedFlag by (simp add: escalate_red_flag_def)
qed

lemma no_turns_foldl: "no_turns svc \<Longrightarrow> no_turns (foldl (apply_op pu) svc ops)"
  by (induction ops arbitrary: svc) (auto simp: no_turns_apply_op)

text \<open>
  Claim C9. After any sequence of operations on a fresh service (\<open>create_session\<close>,
  \<open>process_text_input\<close>, \<open>complete_session\<close>, \<open>get_session_status\<close>,
  \<open>escalate_red_flag\<close>, in any order and number), every stored session has an empty
  \<open>conversation_turns\<close> list, so \<open>complete_session\<close> and \<open>get_session_status\<close>
  report \<open>total_turns = 0\<close> however many text turns were processed.
\<close>

theorem total_turns_always_zero:
  "(\<forall>s. sessions (run_ops parse_uuid new_service ops) sid = Some s
        \<longrightarrow> conversation_turns s = [])
   \<and> (\<forall>c svc'. complete_session now sid (run_ops parse_uuid new_service ops) = Inr (c, svc')
        \<longrightarrow> total_turns c = 0)
   \<and> (\<forall>st. get_session_status sid (run_ops parse_uuid new_service ops) = Some st
        \<longrightarrow> st_total_turns st = 0)"
proof -
  have inv: "no_turns (run_ops parse_uuid new_service ops)"
    unfolding run_ops_def by (rule no_turns_foldl [OF no_turns_new])
  then show ?thesis
    by (auto simp: no_turns_def complete_session_def get_session_status_def Let_def
        split: option.splits)
qed

theorem total_turns_always_zero_witness:
  "provider_calls (run_ops (\<lambda>s. Some 7) new_service five_turns)
      = [''Test symptom description'', ''Test symptom description'',
         ''Test symptom description'', ''Test symptom description'',
         ''Test symptom description'']
   \<and> (\<exists>c svc'. complete_session 120000000 ''complete_session''
          (run_ops (\<lambda>s. Some 7) new_service five_turns) = Inr (c, svc') \<and> total_turns c = 0)
   \<and> (\<exists>st. get_session_status ''complete_session''
          (run_ops (\<lambda>s. Some 7) new_service five_turns) = Some st \<and> st_total_turns st = 0)"
proof -
  have safe: "check_safety ''Test symptom description'' = ''safe''"
    by code_simp
  have noflag: "\<And>now. detect_red_flags now ''Test symptom description'' = []"
    by code_simp
  have calls: "provider_calls (run_ops (\<lambda>s. Some 7) new_service five_turns)
      = [''Test symptom description'', ''Test symptom description'',
         ''Test symptom description'', ''Test symptom description'',
         ''Test symptom description'']"
    by (simp add: run_ops_def five_turns_def test_turn_def new_service_def
        create_session_def process_text_input_def generate_response_def safe noflag Let_def)
  have known: "\<exists>s. sessions (run_ops (\<lambda>s. Some 7) new_service five_turns) ''complete_session'' = Some s"
    by (simp add: run_ops_def five_turns_def test_turn_def new_service_def
        create_session_def process_text_input_def generate_response_def safe noflag Let_def)
  then obtain s where s: "sessions (run_ops (\<lambda>s. Some 7) new_service five_turns) ''complete_session'' = Some s"
    by blast
  from s have "\<exists>c svc'. complete_session 120000000 ''complete_session''
          (run_ops (\<lambda>s. Some 7) new_service five_turns) = Inr (c, svc')"
    by (simp add: complete_session_def Let_def)
  moreover from s have "\<exists>st. get_session_status ''complete_session''
          (run_ops (\<lambda>s. Some 7) new_service five_turns) = Some st"
    by (simp add: get_session_status_def)
  ultimately show ?thesis
    using calls total_turns_always_zero [of "\<lambda>s. Some 7" five_turns "''complete_session''" 120000000]
    by blast
qed

section \<open>Properties of the intake completeness measure\<close>

text \<open>
  Claim C8. For every assignment of the eight section flags: \<open>score\<close> is the number of
  true flags divided by 8; \<open>is_complete\<close> holds exactly when chief complaint, HPI,
  medications and allergies are collected, whatever the other four flags are; and
  \<open>missing_sections\<close> is the list of the labels of the false flags in the fixed order
  Chief Complaint, History of Present Illness, Past Medical History, Medications,
  Allergies, Social History, Family History, Review of Systems.
\<close>

theorem intake_completeness_measures:
  "score c =
     real (length (filter (\<lambda>b. b)
       [chief_complaint_collected c, hpi_collected c, pmh_collected c,
        medications_collected c, allergies_collected c, social_history_collected c,
        family_history_collected c, ros_collected c])) / 8
   \<and> is_complete c =
       (chief_complaint_collected c \<and> hpi_collected c \<and> medications_collected c
        \<and> allergies_collected c)
   \<and> is_complete (c\<lparr>pmh_collected := a, social_history_collected := b,
                     family_history_collected := d, ros_collected := e\<rparr>) = is_complete c
   \<and> missing_sections c =
       map fst (filter (\<lambda>(label, collected). \<not> collected)
         [(''Chief Complaint'', chief_complaint_collected c),
          (''History of Present Illness'', hpi_collected c),
          (''Past Medical History'', pmh_collected c),
          (''Medications'', medications_collected c),
          (''Allergies'', allergies_collected c),
          (''Social History'', social_history_collected c),
          (''Family History'', family_history_collected c),
          (''Review of Systems'', ros_collected c)])"
proof -
  have "score c =
     real (length (filter (\<lambda>b. b)
       [chief_complaint_collected c, hpi_collected c, pmh_collected c,
        medications_collected c, allergies_collected c, social_history_collected c,
        family_history_collected c, ros_collected c])) / 8"
    by (simp add: score_def)
  moreover have "is_complete c =
       (chief_complaint_collected c \<and> hpi_collected c \<and> medications_collected c
        \<and> allergies_collected c)"
    by (simp add: is_complete_def)
  moreover have "is_complete (c\<lparr>pmh_collected := a, social_history_collected := b,
                     family_history_collected := d, ros_collected := e\<rparr>) = is_complete c"
    by (simp add: is_complete_def)
  moreover have "missing_sections c =
       map fst (filter (\<lambda>(label, collected). \<not> collected)
         [(''Chief Complaint'', chief_complaint_collected c),
          (''History of Present Illness'', hpi_collected c),
          (''Past Medical History'', pmh_collected c),
          (''Medications'', medications_collected c),
          (''Allergies'', allergies_collected c),
          (''Social History'', social_history_collected c),
          (''Family History'', family_history_collected c),
          (''Review of Systems'', ros_collected c)])"
    by (simp add: missing_sections_def)
  ultimately show ?thesis by blast
qed

theorem intake_completeness_measures_witness:
  "score \<lparr>chief_complaint_collected = True, hpi_collected = True, pmh_collected = False,
          medications_collected = True, allergies_collected = True,
          social_history_collected = False, family_history_collected = False,
          ros_collected = False\<rparr> = 1 / 2
   \<and> is_complete \<lparr>chief_complaint_collected = True, hpi_collected = True,
          pmh_collected = False, medications_collected = True, allergies_collected = True,
          social_history_collected = False, family_history_collected = False,
          ros_collected = False\<rparr>
   \<and> missing_sections \<lparr>chief_complaint_collected = True, hpi_collected = True,
          pmh_collected = False, medications_collected = True, allergies_collected = True,
          social_history_collected = False, family_history_collected = False,
          ros_collected = False\<rparr>
       = [''Past Medical History'', ''Social History'', ''Family History'',
          ''Review of Systems'']"
  using intake_completeness_measures [of "\<lparr>chief_complaint_collected = True,
          hpi_collected = True, pmh_collected = False, medications_collected = True,
          allergies_collected = True, social_history_collected = False,
          family_history_collected = False, ros_collected = False\<rparr>"]
  by simp

section \<open>Properties of token verification\<close>







text \<open>
  Claim C10. A token that the decoder accepts (valid signature, not expired), whose
  \<open>type\<close> claim is the expected kind, and whose payload has no \<open>sub\<close> claim is
  rejected by \<open>verify_token\<close> all the same: the result is absent.
\<close>

theorem verify_token_missing_subject:
  "jwt_decode now tok (SECRET_KEY S) [ALGORITHM S] = Inr payload
   \<and> dict_get payload ''type'' = PStr kind \<and> map_of payload ''sub'' = None
   \<longrightarrow> verify_token S now tok kind = None"
  by (simp add: verify_token_def dict_get_def)

theorem verify_token_missing_subject_witness:
  "jwt_decode 60000000
      (Signed [(''exp'', PInt 900), (''type'', PStr ''access'')] ''k'' ''HS256'')
      (SECRET_KEY (default_settings ''k'')) [ALGORITHM (default_settings ''k'')]
     = Inr [(''exp'', PInt 900), (''type'', PStr ''access'')]
   \<and> dict_get [(''exp'', PInt 900), (''type'', PStr ''access'')] ''type'' = PStr ''access''
   \<and> map_of [(''exp'', PInt 900), (''type'', PStr ''access'')] ''sub'' = None
   \<and> verify_token (default_settings ''k'') 60000000
        (Signed [(''exp'', PInt 900), (''type'', PStr ''access'')] ''k'' ''HS256'')
        ''access'' = None"
proof -
  have h: "jwt_decode 60000000
      (Signed [(''exp'', PInt 900), (''type'', PStr ''access'')] ''k'' ''HS256'')
      (SECRET_KEY (default_settings ''k'')) [ALGORITHM (default_settings ''k'')]
     = Inr [(''exp'', PInt 900), (''type'', PStr ''access'')]
   \<and> dict_get [(''exp'', PInt 900), (''type'', PStr ''access'')] ''type'' = PStr ''access''
   \<and> map_of [(''exp'', PInt 900), (''type'', PStr ''access'')] ''sub'' = None"
    by (simp add: jwt_decode_def default_settings_def dict_get_def timegm_def)
  with verify_token_missing_subject [of 60000000
      "Signed [(''exp'', PInt 900), (''type'', PStr ''access'')] ''k'' ''HS256''"
      "default_settings ''k''" "[(''exp'', PInt 900), (''type'', PStr ''access'')]" "''access''"]
  show ?thesis by blast
qed

subsection \<open>The OTP hash\<close>

text \<open>
  Whatever the digest function is, the hash of a code is the digest of the code, the
  secret and the phone in this order, and a code is accepted against a stored hash
  exactly when the two digests are equal (the digests being hexadecimal, hence ASCII).
\<close>

lemma hash_otp_concat:
  "hash_otp sha256_hex S otp ph = sha256_hex (otp @ SECRET_KEY S @ ph)"
  by (simp add: hash_otp_def)

lemma verify_otp_hash_compares_digests:
  assumes "is_ascii (sha256_hex (otp' @ SECRET_KEY S @ ph))"
    and "is_ascii (sha256_hex (otp @ SECRET_KEY S @ ph))"
  shows "verify_otp_hash sha256_hex S otp' ph (hash_otp sha256_hex S otp ph) =
           Inr (sha256_hex (otp' @ SECRET_KEY S @ ph) = sha256_hex (otp @ SECRET_KEY S @ ph))"
  using assms by (simp add: verify_otp_hash_def compare_digest_def hash_otp_def)

lemma verify_otp_hash_own:
  assumes "is_ascii (sha256_hex (otp @ SECRET_KEY S @ ph))"
  shows "verify_otp_hash sha256_hex S otp ph (hash_otp sha256_hex S otp ph) = Inr True"
  using assms by (simp add: verify_otp_hash_def compare_digest_def hash_otp_def)

section \<open>Properties of the OTP verification endpoint\<close>





section \<open>Properties of the patient aggregate\<close>

lemma is_active_earlier: "t \<le> t' \<Longrightarrow> is_active t' c \<Longrightarrow> is_active t c"
  by (auto simp: is_active_def split: option.splits if_splits)

lemma filter_length_mono:
  "(\<And>x. x \<in> set xs \<Longrightarrow> P x \<Longrightarrow> Q x) \<Longrightarrow> length (filter P xs) \<le> length (filter Q xs)"
  by (induction xs) auto

lemma active_count_earlier:
  "t \<le> t' \<Longrightarrow> active_count t' ty cs \<le> active_count t ty cs"
  unfolding active_count_def
  by (rule filter_length_mono) (auto dest: is_active_earlier)

lemma has_active_iff:
  "has_active now ty cs \<longleftrightarrow> (\<exists>c \<in> set cs. consent_type c = ty \<and> is_active now c)"
  by (induction cs) auto

lemma has_active_count: "has_active now ty cs \<longleftrightarrow> 0 < active_count now ty cs"
  by (induction cs) (auto simp: active_count_def)

lemma filter_length_update:
  "i < length xs \<Longrightarrow> (P y \<Longrightarrow> P (xs ! i))
   \<Longrightarrow> length (filter P (xs[i := y])) \<le> length (filter P xs)"
proof (induction xs arbitrary: i)
  case Nil
  then show ?case by simp
next
  case (Cons x xs)
  show ?case
  proof (cases i)
    case 0
    with Cons.prems show ?thesis by auto
  next
    case (Suc j)
    with Cons.prems have "length (filter P (xs[j := y])) \<le> length (filter P xs)"
      by (intro Cons.IH) auto
    with Suc show ?thesis by simp
  qed
qed

lemma active_count_update:
  "i < length cs
   \<Longrightarrow> (consent_type c' = ty \<and> is_active t c' \<Longrightarrow> consent_type (cs ! i) = ty \<and> is_active t (cs ! i))
   \<Longrightarrow> active_count t ty (cs[i := c']) \<le> active_count t ty cs"
  unfolding active_count_def by (rule filter_length_update) auto

text \<open>What the loop of \<open>revoke_consent\<close> does, in terms of the list.\<close>

lemma revoke_first_None:
  "revoke_first now ty cs = Inr None \<longleftrightarrow> \<not> has_active now ty cs"
  by (induction cs) (auto simp: consent_revoke_def is_active_def split: sum.splits option.splits if_splits)

lemma revoke_first_not_error: "revoke_first now ty cs \<noteq> Inl e"
  by (induction cs) (auto simp: consent_revoke_def is_active_def split: sum.splits option.splits if_splits)

lemma revoke_first_split:
  assumes "cs = pre @ c # post"
    and "\<forall>x \<in> set pre. \<not> (consent_type x = ty \<and> is_active now x)"
    and "consent_type c = ty" and "is_active now c"
  shows "revoke_first now ty cs = Inr (Some (pre @ c\<lparr>revoked_at := Some now\<rparr> # post))"
  using assms
proof (induction pre arbitrary: cs)
  case Nil
  then show ?case by (simp add: consent_revoke_def is_active_def split: if_splits)
next
  case (Cons x pre)
  then show ?case by auto
qed

lemma revoke_first_Some:
  "revoke_first now ty cs = Inr (Some cs') \<Longrightarrow>
   \<exists>pre c post. cs = pre @ c # post
     \<and> (\<forall>x \<in> set pre. \<not> (consent_type x = ty \<and> is_active now x))
     \<and> consent_type c = ty \<and> is_active now c
     \<and> cs' = pre @ c\<lparr>revoked_at := Some now\<rparr> # post"
proof (induction cs arbitrary: cs')
  case Nil
  then show ?case by simp
next
  case (Cons a cs)
  show ?case
  proof (cases "consent_type a = ty \<and> is_active now a")
    case True
    with Cons.prems have "cs' = a\<lparr>revoked_at := Some now\<rparr> # cs"
      by (auto simp: consent_revoke_def is_active_def split: if_splits)
    with True have "a # cs = [] @ a # cs
        \<and> (\<forall>x \<in> set []. \<not> (consent_type x = ty \<and> is_active now x))
        \<and> consent_type a = ty \<and> is_active now a
        \<and> cs' = [] @ a\<lparr>revoked_at := Some now\<rparr> # cs" by simp
    then show ?thesis by blast
  next
    case False
    with Cons.prems obtain cs'' where r: "revoke_first now ty cs = Inr (Some cs'')"
      and c: "cs' = a # cs''"
      by (auto split: sum.splits option.splits)
    from Cons.IH [OF r] obtain pre c post where
      "cs = pre @ c # post" "\<forall>x \<in> set pre. \<not> (consent_type x = ty \<and> is_active now x)"
      "consent_type c = ty" "is_active now c" "cs'' = pre @ c\<lparr>revoked_at := Some now\<rparr> # post"
      by blast
    with False c have "a # cs = (a # pre) @ c # post
        \<and> (\<forall>x \<in> set (a # pre). \<not> (consent_type x = ty \<and> is_active now x))
        \<and> consent_type c = ty \<and> is_active now c
        \<and> cs' = (a # pre) @ c\<lparr>revoked_at := Some now\<rparr> # post" by simp
    then show ?thesis by blast
  qed
qed

lemma not_active_revoked: "\<not> is_active t (c\<lparr>revoked_at := Some now\<rparr>)"
  by (simp add: is_active_def)

lemma active_count_revoked:
  "revoke_first now ty cs = Inr (Some cs') \<Longrightarrow> active_count t ty' cs' \<le> active_count t ty' cs"
  by (drule revoke_first_Some) (auto simp: active_count_def not_active_revoked)

lemma active_count_revoked_own:
  "revoke_first now ty cs = Inr (Some cs') \<Longrightarrow> active_count now ty cs \<le> 1
   \<Longrightarrow> active_count now ty cs' = 0"
  by (drule revoke_first_Some) (auto simp: active_count_def not_active_revoked)


lemma one_active_later: "one_active t p \<Longrightarrow> t \<le> t' \<Longrightarrow> one_active t' p"
  unfolding one_active_def using active_count_earlier le_trans by blast

lemma consents_increment_version [simp]: "consents (increment_version p) = consents p"
  by (simp add: increment_version_def)

lemma consents_add_domain_event [simp]: "consents (add_domain_event e p) = consents p"
  by (simp add: add_domain_event_def)

lemma one_active_grant:
  assumes "one_active t p"
  shows "one_active t (apply_patient_op p (GrantConsent t cid ty purp ex))"
proof (cases "has_active t ty (consents p)")
  case True
  with assms show ?thesis by (simp add: grant_consent_def)
next
  case False
  then have zero: "active_count t ty (consents p) = 0"
    by (simp add: has_active_count)
  have "active_count t ty' (consents p @ [c]) \<le> 1" if "consent_type c = ty" for ty' c
  proof (cases "ty' = ty")
    case True
    with zero show ?thesis by (simp add: active_count_def)
  next
    case False
    with that have "active_count t ty' (consents p @ [c]) = active_count t ty' (consents p)"
      by (simp add: active_count_def)
    with assms show ?thesis by (simp add: one_active_def)
  qed
  with False show ?thesis
    by (simp add: grant_consent_def one_active_def Let_def)
qed

lemma one_active_revoke:
  assumes "one_active t p"
  shows "one_active t (apply_patient_op p (RevokeConsent t ty))"
proof (cases "revoke_first t ty (consents p)")
  case (Inl e)
  with assms show ?thesis by (simp add: revoke_consent_def)
next
  case (Inr r)
  show ?thesis
  proof (cases r)
    case None
    with Inr assms show ?thesis by (simp add: revoke_consent_def)
  next
    case (Some cs')
    with Inr have "\<And>ty'. active_count t ty' cs' \<le> active_count t ty' (consents p)"
      by (simp add: active_count_revoked)
    with assms have "\<And>ty'. active_count t ty' cs' \<le> 1"
      unfolding one_active_def using le_trans by blast
    with Inr Some show ?thesis
      by (simp add: revoke_consent_def one_active_def)
  qed
qed

lemma one_active_consent_revoke:
  assumes "one_active t p"
  shows "one_active t (apply_patient_op p (ConsentRevoke t i))"
proof (cases "i < length (consents p) \<and> revoked_at (consents p ! i) = None")
  case True
  have "active_count t ty' ((consents p)[i := (consents p ! i)\<lparr>revoked_at := Some t\<rparr>])
      \<le> active_count t ty' (consents p)" for ty'
    using True by (intro active_count_update) (auto simp: not_active_revoked)
  with assms have "active_count t ty' ((consents p)[i := (consents p ! i)\<lparr>revoked_at := Some t\<rparr>])
      \<le> 1" for ty'
    unfolding one_active_def using le_trans by blast
  with True show ?thesis
    by (simp add: consent_revoke_def one_active_def)
next
  case False
  with assms show ?thesis by (auto simp: consent_revoke_def)
qed

lemma one_active_consent_extend:
  assumes "one_active t p"
  shows "one_active t (apply_patient_op p (ConsentExtend t i ex))"
proof (cases "i < length (consents p) \<and> is_active t (consents p ! i) \<and> t < ex")
  case True
  have "active_count t ty' ((consents p)[i := (consents p ! i)\<lparr>expires_at := Some ex\<rparr>])
      \<le> active_count t ty' (consents p)" for ty'
    using True by (intro active_count_update) auto
  with assms have "active_count t ty' ((consents p)[i := (consents p ! i)\<lparr>expires_at := Some ex\<rparr>])
      \<le> 1" for ty'
    unfolding one_active_def using le_trans by blast
  with True show ?thesis
    by (simp add: consent_extend_def one_active_def)
next
  case False
  with assms show ?thesis by (auto simp: consent_extend_def)
qed

lemma one_active_step:
  assumes "one_active t p" and "t \<le> op_time x"
  shows "one_active (op_time x) (apply_patient_op p x)"
proof -
  from assms have a: "one_active (op_time x) p" by (rule one_active_later)
  show ?thesis
  proof (cases x)
    case (Verify t' m)
    with a show ?thesis by (auto simp: verify_def one_active_def)
  next
    case (GrantConsent t' cid ty purp ex)
    with a one_active_grant [of t' p cid ty purp ex] show ?thesis by simp
  next
    case (RevokeConsent t' ty)
    with a one_active_revoke [of t' p ty] show ?thesis by simp
  next
    case (AddEmergencyContact t' cid nm ph rel pr)
    with a show ?thesis by (simp add: add_emergency_contact_def one_active_def Let_def)
  next
    case (UpdateContactInfo t' ph em addr)
    with a show ?thesis
      by (simp add: update_contact_info_def one_active_def Let_def split: option.splits)
  next
    case (LinkAbha t' abha)
    with a show ?thesis by (auto simp: link_abha_def one_active_def)
  next
    case (Deactivate t')
    with a show ?thesis by (auto simp: deactivate_def one_active_def)
  next
    case (Reactivate t')
    with a show ?thesis by (auto simp: reactivate_def one_active_def)
  next
    case (ClearDomainEvents t')
    with a show ?thesis by (simp add: clear_domain_events_def one_active_def)
  next
    case (ConsentRevoke t' i)
    with a one_active_consent_revoke [of t' p i] show ?thesis by simp
  next
    case (ConsentExtend t' i ex)
    with a one_active_consent_extend [of t' p i ex] show ?thesis by simp
  qed
qed

lemma one_active_run:
  "one_active t p \<Longrightarrow> sorted (t # map op_time ops @ [now])
   \<Longrightarrow> one_active now (foldl apply_patient_op p ops)"
proof (induction ops arbitrary: t p)
  case Nil
  then show ?case by (auto intro: one_active_later)
next
  case (Cons x ops)
  from Cons.prems have "t \<le> op_time x" and s: "sorted (op_time x # map op_time ops @ [now])"
    by auto
  with Cons.prems have "one_active (op_time x) (apply_patient_op p x)"
    by (intro one_active_step)
  from Cons.IH [OF this s] show ?case by simp
qed


lemma grant_consent_result:
  "grant_consent now cid ty purp ex q =
     (if \<exists>c \<in> set (consents q). consent_type c = ty \<and> is_active now c
      then Inl (ValueError (''Active consent for '' @ ty @ '' already exists''))
      else Inr (\<lparr>consent_uid = cid, consent_patient_id = uid q, consent_type = ty,
                 purpose = purp, granted_at = now, expires_at = ex, revoked_at = None\<rparr>,
                q\<lparr>consents := consents q @
                      [\<lparr>consent_uid = cid, consent_patient_id = uid q, consent_type = ty,
                        purpose = purp, granted_at = now, expires_at = ex,
                        revoked_at = None\<rparr>],
                   version := version q + 1,
                   events := events q @ [ConsentGrantedEvent (uid q) now ty purp]\<rparr>))"
  by (simp add: grant_consent_def has_active_iff Let_def add_domain_event_def
      increment_version_def)

lemma revoke_consent_none:
  "(\<forall>c \<in> set (consents q). \<not> (consent_type c = ty \<and> is_active now c))
   \<Longrightarrow> revoke_consent now ty q = Inl (ValueError (''No active consent found for '' @ ty))"
proof -
  assume "\<forall>c \<in> set (consents q). \<not> (consent_type c = ty \<and> is_active now c)"
  then have "\<not> has_active now ty (consents q)" by (simp add: has_active_iff)
  then have "revoke_first now ty (consents q) = Inr None" by (simp add: revoke_first_None)
  then show ?thesis by (simp add: revoke_consent_def)
qed

lemma revoke_consent_first:
  assumes "consents q = pre @ c # post"
    and "\<forall>x \<in> set pre. \<not> (consent_type x = ty \<and> is_active now x)"
    and "consent_type c = ty" and "is_active now c"
  shows "revoke_consent now ty q =
           Inr (q\<lparr>consents := pre @ c\<lparr>revoked_at := Some now\<rparr> # post,
                  version := version q + 1,
                  events := events q @ [ConsentRevokedEvent (uid q) now ty]\<rparr>)"
  using revoke_first_split [OF assms]
  by (simp add: revoke_consent_def add_domain_event_def increment_version_def)

lemma grant_after_revoke:
  assumes inv: "one_active now p" and r: "revoke_consent now ty p = Inr p'"
    and later: "now \<le> later"
  shows "\<exists>c' p''. grant_consent later cid ty purp ex p' = Inr (c', p'')"
proof -
  from r obtain cs' where f: "revoke_first now ty (consents p) = Inr (Some cs')"
    and p': "consents p' = cs'"
    by (auto simp: revoke_consent_def split: sum.splits option.splits)
  from inv have "active_count now ty (consents p) \<le> 1" by (simp add: one_active_def)
  with f have "active_count now ty cs' = 0" by (rule active_count_revoked_own)
  moreover have "active_count later ty cs' \<le> active_count now ty cs'"
    using later by (rule active_count_earlier)
  ultimately have "\<not> has_active later ty cs'" by (simp add: has_active_count)
  with p' show ?thesis by (simp add: grant_consent_def Let_def)
qed

text \<open>
  Claim C6. A consent is active exactly when it is not revoked and has no expiry or an
  expiry that has not passed (at the instant of its expiry it is still active). For a patient aggregate made by the constructor or by
  \<open>register\<close> and then changed by any sequence of its operations (and of the methods
  of its consents) at times that do not decrease, at every later time at most one
  consent of each type is active. For every aggregate state, \<open>grant_consent\<close> raises
  when an active consent of the type exists and otherwise appends the new consent,
  increments the version and queues a \<open>ConsentGranted\<close> event; \<open>revoke_consent\<close>
  raises when no active consent of the type exists and otherwise revokes the first
  active one, increments the version and queues a \<open>ConsentRevoked\<close> event. After a
  successful \<open>revoke_consent\<close> of a type on such an aggregate, a later
  \<open>grant_consent\<close> of that type succeeds.
\<close>

theorem at_most_one_active_consent_per_type:
  assumes "p0 = Patient_init t0 i ph nm dob g em abha addr lang v
           \<or> p0 = register t0 i ph nm dob g em"
    and "sorted (t0 # map op_time ops @ [now])"
  shows
    "is_active now c0 =
       (revoked_at c0 = None \<and> (case expires_at c0 of None \<Rightarrow> True | Some e \<Rightarrow> now \<le> e))
     \<and> length (filter (\<lambda>c. consent_type c = ty \<and> is_active now c)
               (consents (run_patient_ops p0 ops))) \<le> 1
     \<and> grant_consent now cid ty purp ex q =
         (if \<exists>c \<in> set (consents q). consent_type c = ty \<and> is_active now c
          then Inl (ValueError (''Active consent for '' @ ty @ '' already exists''))
          else Inr (\<lparr>consent_uid = cid, consent_patient_id = uid q, consent_type = ty,
                     purpose = purp, granted_at = now, expires_at = ex, revoked_at = None\<rparr>,
                    q\<lparr>consents := consents q @
                          [\<lparr>consent_uid = cid, consent_patient_id = uid q,
                            consent_type = ty, purpose = purp, granted_at = now,
                            expires_at = ex, revoked_at = None\<rparr>],
                       version := version q + 1,
                       events := events q @ [ConsentGrantedEvent (uid q) now ty purp]\<rparr>))
     \<and> ((\<forall>c \<in> set (consents q). \<not> (consent_type c = ty \<and> is_active now c))
          \<longrightarrow> revoke_consent now ty q
              = Inl (ValueError (''No active consent found for '' @ ty)))
     \<and> (consents q = pre @ c # post
          \<and> (\<forall>x \<in> set pre. \<not> (consent_type x = ty \<and> is_active now x))
          \<and> consent_type c = ty \<and> is_active now c
          \<longrightarrow> revoke_consent now ty q =
                Inr (q\<lparr>consents := pre @ c\<lparr>revoked_at := Some now\<rparr> # post,
                       version := version q + 1,
                       events := events q @ [ConsentRevokedEvent (uid q) now ty]\<rparr>))
     \<and> (revoke_consent now ty (run_patient_ops p0 ops) = Inr p' \<and> now \<le> later
          \<longrightarrow> (\<exists>c' p''. grant_consent later cid ty purp ex p' = Inr (c', p'')))"
proof -
  from assms(1) have "consents p0 = []"
    by (auto simp: Patient_init_def register_def Let_def)
  then have "one_active t0 p0" by (simp add: one_active_def active_count_def)
  from one_active_run [OF this assms(2)]
  have inv: "one_active now (run_patient_ops p0 ops)" by (simp add: run_patient_ops_def)
  then have 1: "length (filter (\<lambda>c. consent_type c = ty \<and> is_active now c)
               (consents (run_patient_ops p0 ops))) \<le> 1"
    by (simp add: one_active_def active_count_def)
  have 5: "revoke_consent now ty (run_patient_ops p0 ops) = Inr p' \<and> now \<le> later
          \<longrightarrow> (\<exists>c' p''. grant_consent later cid ty purp ex p' = Inr (c', p''))"
    using grant_after_revoke [OF inv] by blast
  have 4: "consents q = pre @ c # post
          \<and> (\<forall>x \<in> set pre. \<not> (consent_type x = ty \<and> is_active now x))
          \<and> consent_type c = ty \<and> is_active now c
          \<longrightarrow> revoke_consent now ty q =
                Inr (q\<lparr>consents := pre @ c\<lparr>revoked_at := Some now\<rparr> # post,
                       version := version q + 1,
                       events := events q @ [ConsentRevokedEvent (uid q) now ty]\<rparr>)"
    using revoke_consent_first [of q pre c post ty now] by blast
  have 0: "is_active now c0 =
       (revoked_at c0 = None \<and> (case expires_at c0 of None \<Rightarrow> True | Some e \<Rightarrow> now \<le> e))"
    by (auto simp: is_active_def split: option.splits)
  from 0 1 grant_consent_result [of now cid ty purp ex q] revoke_consent_none [of q ty now] 4 5
  show ?thesis by blast
qed

theorem at_most_one_active_consent_per_type_witness:
  "sorted ((0::int) # map op_time [example_grant] @ [20])
   \<and> length (filter (\<lambda>c. consent_type c = ''ai_intake'' \<and> is_active 20 c)
        (consents (run_patient_ops example_patient [example_grant]))) = 1
   \<and> grant_consent 20 2 ''ai_intake'' ''again'' None
        (run_patient_ops example_patient [example_grant])
      = Inl (ValueError ''Active consent for ai_intake already exists'')
   \<and> revoke_consent 20 ''telehealth'' (run_patient_ops example_patient [example_grant])
      = Inl (ValueError ''No active consent found for telehealth'')
   \<and> (\<exists>p'. revoke_consent 20 ''ai_intake'' (run_patient_ops example_patient [example_grant])
             = Inr p'
          \<and> map revoked_at (consents p') = [Some 20]
          \<and> (\<exists>c' p''. grant_consent 30 2 ''ai_intake'' ''again'' None p' = Inr (c', p'')))"
proof -
  have h1: "example_patient = Patient_init 0 7 ''9876543210'' ''Asha Rao'' ''1990-01-01''
              ''female'' None None None ''en'' 0
            \<or> example_patient = register 0 7 ''9876543210'' ''Asha Rao'' ''1990-01-01''
              ''female'' None"
    by (simp add: example_patient_def)
  have h2: "sorted ((0::int) # map op_time [example_grant] @ [20])"
    by (simp add: example_grant_def)
  have st: "consents (run_patient_ops example_patient [example_grant]) =
      [\<lparr>consent_uid = 5, consent_patient_id = 7, consent_type = ''ai_intake'',
        purpose = ''AI-assisted medical intake'', granted_at = 10, expires_at = None,
        revoked_at = None\<rparr>]"
    by (simp add: run_patient_ops_def example_grant_def example_patient_def register_def
        Patient_init_def grant_consent_def Let_def add_domain_event_def increment_version_def)
  have act: "is_active 20 \<lparr>consent_uid = 5, consent_patient_id = 7, consent_type = ''ai_intake'',
        purpose = ''AI-assisted medical intake'', granted_at = 10, expires_at = None,
        revoked_at = None\<rparr>"
    by (simp add: is_active_def)
  note t = at_most_one_active_consent_per_type [OF h1 h2,
      where ty = "''ai_intake''" and cid = 2 and purp = "''again''" and ex = None
        and q = "run_patient_ops example_patient [example_grant]" and pre = "[]"
        and c = "\<lparr>consent_uid = 5, consent_patient_id = 7, consent_type = ''ai_intake'',
          purpose = ''AI-assisted medical intake'', granted_at = 10, expires_at = None,
          revoked_at = None\<rparr>" and post = "[]" and later = 30]
  note t2 = at_most_one_active_consent_per_type [OF h1 h2,
      where ty = "''telehealth''" and q = "run_patient_ops example_patient [example_grant]"]
  from t2 have none: "revoke_consent 20 ''telehealth''
        (run_patient_ops example_patient [example_grant])
      = Inl (ValueError ''No active consent found for telehealth'')"
    by (simp add: st)
  from t have again: "grant_consent 20 2 ''ai_intake'' ''again'' None
        (run_patient_ops example_patient [example_grant])
      = Inl (ValueError ''Active consent for ai_intake already exists'')"
    by (simp add: st act)
  from t have rev: "revoke_consent 20 ''ai_intake'' (run_patient_ops example_patient [example_grant])
      = Inr ((run_patient_ops example_patient [example_grant])
          \<lparr>consents := [\<lparr>consent_uid = 5, consent_patient_id = 7, consent_type = ''ai_intake'',
              purpose = ''AI-assisted medical intake'', granted_at = 10, expires_at = None,
              revoked_at = Some 20\<rparr>],
           version := version (run_patient_ops example_patient [example_grant]) + 1,
           events := events (run_patient_ops example_patient [example_grant])
              @ [ConsentRevokedEvent (uid (run_patient_ops example_patient [example_grant]))
                   20 ''ai_intake'']\<rparr>)"
    by (simp add: st act)
  from t rev have regrant: "\<exists>c' p''. grant_consent 30 2 ''ai_intake'' ''again'' None
       ((run_patient_ops example_patient [example_grant])
          \<lparr>consents := [\<lparr>consent_uid = 5, consent_patient_id = 7, consent_type = ''ai_intake'',
              purpose = ''AI-assisted medical intake'', granted_at = 10, expires_at = None,
              revoked_at = Some 20\<rparr>],
           version := version (run_patient_ops example_patient [example_grant]) + 1,
           events := events (run_patient_ops example_patient [example_grant])
              @ [ConsentRevokedEvent (uid (run_patient_ops example_patient [example_grant]))
                   20 ''ai_intake'']\<rparr>) = Inr (c', p'')"
    by simp
  have one: "length (filter (\<lambda>c. consent_type c = ''ai_intake'' \<and> is_active 20 c)
        (consents (run_patient_ops example_patient [example_grant]))) = 1"
    by (simp add: st act)
  from h2 one again none rev regrant show ?thesis by simp
qed

section \<open>Properties of the available-slots operation\<close>







end
